theory Spec2Isabelle
  imports Main "HOL-Library.Word"
begin

section \<open>The data model of \<^verbatim>\<open>ogr_fdw.h\<close>\<close>

text \<open>
  \<^verbatim>\<open>typedef enum { OGR_UNMATCHED, OGR_GEOMETRY, OGR_FID, OGR_FIELD } OgrColumnVariant;\<close>
  and
  \<^verbatim>\<open>typedef enum { OGR_PLAN_STATE, OGR_EXEC_STATE, OGR_MODIFY_STATE } OgrFdwStateType;\<close>
\<close>

datatype OgrColumnVariant = OGR_UNMATCHED | OGR_GEOMETRY | OGR_FID | OGR_FIELD

datatype OgrFdwStateType = OGR_PLAN_STATE | OGR_EXEC_STATE | OGR_MODIFY_STATE

text \<open>
  \<^verbatim>\<open>Oid\<close> is the host engine's \<^verbatim>\<open>unsigned int\<close>; \<^verbatim>\<open>OGRFieldType\<close> is an enum of
  the geodata library, kept as its integer code. Neither header is part of the repository.
\<close>

type_synonym Oid = "32 word"

type_synonym OGRFieldType = int

subsection \<open>Struct declarations and their layout in memory\<close>

text \<open>
  The member types that occur in the four session-state structs and in
  \<^verbatim>\<open>OgrConnection\<close>. Pointer and handle types keep their C names; their sizes and
  alignments are not fixed by the header and are a parameter (\<open>abi\<close>) of everything below.
\<close>

datatype ctype =
    C_int
  | C_Oid
  | C_Cost
  | C_OgrFdwStateType
  | C_char_ptr
  | C_bool_ptr
  | C_OgrFdwTable_ptr
  | C_TupleDesc
  | C_GDALDatasetH
  | C_OGRLayerH

text \<open>A member of a session-state struct is a scalar or the embedded \<^verbatim>\<open>OgrConnection\<close>.\<close>

datatype mtype = Scalar ctype | Struct_OgrConnection

record abi =
  size_of :: "ctype \<Rightarrow> nat"
  align_of :: "ctype \<Rightarrow> nat"

text \<open>\<^verbatim>\<open>typedef struct OgrConnection { ... } OgrConnection;\<close> (lines 131 to 140).\<close>

definition OgrConnection_members :: "(string \<times> ctype) list" where
  "OgrConnection_members =
     [(''ds_str'', C_char_ptr),
      (''dr_str'', C_char_ptr),
      (''lyr_str'', C_char_ptr),
      (''config_options'', C_char_ptr),
      (''open_options'', C_char_ptr),
      (''ds'', C_GDALDatasetH),
      (''lyr'', C_OGRLayerH)]"

text \<open>\<^verbatim>\<open>typedef struct OgrFdwState { ... } OgrFdwState;\<close> (lines 149 to 154).\<close>

definition OgrFdwState_members :: "(string \<times> mtype) list" where
  "OgrFdwState_members =
     [(''type'', Scalar C_OgrFdwStateType),
      (''foreigntableid'', Scalar C_Oid),
      (''ogr'', Struct_OgrConnection)]"

text \<open>\<^verbatim>\<open>typedef struct OgrFdwPlanState { ... } OgrFdwPlanState;\<close> (lines 156 to 165).\<close>

definition OgrFdwPlanState_members :: "(string \<times> mtype) list" where
  "OgrFdwPlanState_members =
     [(''type'', Scalar C_OgrFdwStateType),
      (''foreigntableid'', Scalar C_Oid),
      (''ogr'', Struct_OgrConnection),
      (''nrows'', Scalar C_int),
      (''startup_cost'', Scalar C_Cost),
      (''total_cost'', Scalar C_Cost),
      (''pushdown_clauses'', Scalar C_bool_ptr)]"

text \<open>\<^verbatim>\<open>typedef struct OgrFdwExecState { ... } OgrFdwExecState;\<close> (lines 167 to 178).\<close>

definition OgrFdwExecState_members :: "(string \<times> mtype) list" where
  "OgrFdwExecState_members =
     [(''type'', Scalar C_OgrFdwStateType),
      (''foreigntableid'', Scalar C_Oid),
      (''ogr'', Struct_OgrConnection),
      (''table'', Scalar C_OgrFdwTable_ptr),
      (''tupdesc'', Scalar C_TupleDesc),
      (''sql'', Scalar C_char_ptr),
      (''rownum'', Scalar C_int),
      (''setsridfunc'', Scalar C_Oid),
      (''typmodsridfunc'', Scalar C_Oid)]"

text \<open>\<^verbatim>\<open>typedef struct OgrFdwModifyState { ... } OgrFdwModifyState;\<close> (lines 180 to 187).\<close>

definition OgrFdwModifyState_members :: "(string \<times> mtype) list" where
  "OgrFdwModifyState_members =
     [(''type'', Scalar C_OgrFdwStateType),
      (''foreigntableid'', Scalar C_Oid),
      (''ogr'', Struct_OgrConnection),
      (''table'', Scalar C_OgrFdwTable_ptr),
      (''tupdesc'', Scalar C_TupleDesc)]"

text \<open>
  C lays the members of a struct out in declaration order, each at the next offset that
  is a multiple of its alignment. \<open>place\<close> returns, for every member, its name, offset
  and size; \<open>struct_end\<close> is the first offset after the last member.
\<close>

definition align_up :: "nat \<Rightarrow> nat \<Rightarrow> nat" where
  "align_up off a = ((off + a - 1) div a) * a"

fun place :: "('t \<Rightarrow> nat) \<Rightarrow> ('t \<Rightarrow> nat) \<Rightarrow> nat \<Rightarrow> (string \<times> 't) list
    \<Rightarrow> (string \<times> nat \<times> nat) list" where
  "place sz al off [] = []"
| "place sz al off ((n, t) # ms) =
     (let at = align_up off (al t)
      in (n, at, sz t) # place sz al (at + sz t) ms)"

fun struct_end :: "(string \<times> nat \<times> nat) list \<Rightarrow> nat" where
  "struct_end [] = 0"
| "struct_end [(n, at, s)] = at + s"
| "struct_end (m # ms) = struct_end ms"

definition struct_align :: "('t \<Rightarrow> nat) \<Rightarrow> (string \<times> 't) list \<Rightarrow> nat" where
  "struct_align al ms = fold max (map (\<lambda>m. al (snd m)) ms) 1"

definition struct_size :: "('t \<Rightarrow> nat) \<Rightarrow> ('t \<Rightarrow> nat) \<Rightarrow> (string \<times> 't) list \<Rightarrow> nat" where
  "struct_size sz al ms = align_up (struct_end (place sz al 0 ms)) (struct_align al ms)"

fun msize :: "abi \<Rightarrow> mtype \<Rightarrow> nat" where
  "msize a (Scalar t) = size_of a t"
| "msize a Struct_OgrConnection = struct_size (size_of a) (align_of a) OgrConnection_members"

fun malign :: "abi \<Rightarrow> mtype \<Rightarrow> nat" where
  "malign a (Scalar t) = align_of a t"
| "malign a Struct_OgrConnection = struct_align (align_of a) OgrConnection_members"

definition layout :: "abi \<Rightarrow> (string \<times> mtype) list \<Rightarrow> (string \<times> nat \<times> nat) list" where
  "layout a ms = place (msize a) (malign a) 0 ms"

text \<open>
  Memory is an array of bytes. Reading member \<open>f\<close> of the object at address \<open>p\<close> through
  a struct type reads the member's bytes at \<open>p\<close> plus the member's offset in that type;
  a type with no such member gives \<open>None\<close> (the C does not compile).
\<close>

type_synonym memory = "nat \<Rightarrow> 8 word"

definition load :: "memory \<Rightarrow> nat \<Rightarrow> nat \<Rightarrow> 8 word list" where
  "load m p n = map (\<lambda>i. m (p + i)) [0..<n]"

definition read_member :: "abi \<Rightarrow> (string \<times> mtype) list \<Rightarrow> string \<Rightarrow> memory \<Rightarrow> nat
    \<Rightarrow> 8 word list option" where
  "read_member a ms f m p =
     (case map_of (layout a ms) f of
        None \<Rightarrow> None
      | Some (at, n) \<Rightarrow> Some (load m (p + at) n))"

text \<open>The usual 64-bit ABI, to evaluate the layout on.\<close>

definition lp64 :: abi where
  "lp64 = \<lparr> size_of = (\<lambda>t. case t of C_int \<Rightarrow> 4 | C_Oid \<Rightarrow> 4 | C_OgrFdwStateType \<Rightarrow> 4 | _ \<Rightarrow> 8),
            align_of = (\<lambda>t. case t of C_int \<Rightarrow> 4 | C_Oid \<Rightarrow> 4 | C_OgrFdwStateType \<Rightarrow> 4 | _ \<Rightarrow> 8) \<rparr>"

subsection \<open>Columns and tables\<close>

text \<open>\<^verbatim>\<open>typedef struct OgrFdwColumn { ... } OgrFdwColumn;\<close> (lines 96 to 122).\<close>

record OgrFdwColumn =
  pgattnum :: int
  pgattisdropped :: int
  pgname :: string
  pgtype :: Oid
  pgtypmod :: int
  pginputfunc :: Oid
  pginputioparam :: Oid
  pgrecvfunc :: Oid
  pgrecvioparam :: Oid
  pgoutputfunc :: Oid
  pgoutputvarlena :: bool
  pgsendfunc :: Oid
  pgsendvarlena :: bool
  ogrvariant :: OgrColumnVariant
  ogrfldnum :: int
  ogrfldtype :: OGRFieldType

text \<open>\<^verbatim>\<open>typedef struct OgrFdwTable { int ncols; char *tblname; OgrFdwColumn *cols; }\<close>\<close>

record OgrFdwTable =
  ncols :: int
  tblname :: string
  cols :: "OgrFdwColumn list"

subsection \<open>String equality\<close>

text \<open>
  \<^verbatim>\<open>#define strcaseeq(s1,s2) (strcasecmp((s1),(s2)) == 0)\<close> (line 86). A C string is
  the characters before its terminating NUL. \<open>strcasecmp\<close> is the C library's, in the
  C locale: it lowers both characters, stops at the first NUL of the first string or at
  the first difference, and returns the difference of the two characters.
\<close>

definition tolower :: "char \<Rightarrow> char" where
  "tolower c =
     (let n = (of_char c :: nat) in if 65 \<le> n \<and> n \<le> 90 then char_of (n + 32) else c)"

fun strcasecmp :: "string \<Rightarrow> string \<Rightarrow> int" where
  "strcasecmp [] [] = 0"
| "strcasecmp [] (d # ds) = 0 - (of_char (tolower d) :: int)"
| "strcasecmp (c # cs) [] = (of_char (tolower c) :: int) - 0"
| "strcasecmp (c # cs) (d # ds) =
     (let c1 = tolower c; c2 = tolower d
      in if c1 = CHR 0x00 then (of_char c1 :: int) - of_char c2
         else if c1 = c2 then strcasecmp cs ds
         else (of_char c1 :: int) - of_char c2)"

definition strcaseeq :: "string \<Rightarrow> string \<Rightarrow> bool" where
  "strcaseeq s1 s2 = (strcasecmp s1 s2 = 0)"

text \<open>The characters of a C string held in a list: those before the first NUL.\<close>

definition cstr :: "string \<Rightarrow> string" where
  "cstr s = takeWhile (\<lambda>c. c \<noteq> CHR 0x00) s"

section \<open>The column matcher\<close>

text \<open>
  The column/schema matcher (section 4.2 of the spec) and the lookups of the
  type mapping table it uses (section 4.1) are in the repository's \<^verbatim>\<open>ogr_fdw.c\<close>, which
  is not among the sources. The header declares the column record, the variant tag and
  \<^verbatim>\<open>strcaseeq\<close>, which are used as declared; everything else in this section follows the
  spec's description.
\<close>

text \<open>
  Modelled from the spec: a declared column, the input of the missing matcher. It is
  the relation metadata the host engine supplies (section 6: "declared columns with
  name/type/typmod"), with its ordinal position and the engine's dropped flag.
\<close>

record PgAttribute =
  attnum :: int
  attisdropped :: bool
  attname :: string
  atttypid :: Oid
  atttypmod :: int

text \<open>
  Modelled from the spec: the "cached conversion-function references for text-in,
  text-out, and binary-in/out" that the missing matcher takes from the host engine's
  catalog for a type.
\<close>

record PgTypeIO =
  io_inputfunc :: Oid
  io_inputioparam :: Oid
  io_recvfunc :: Oid
  io_recvioparam :: Oid
  io_outputfunc :: Oid
  io_outputvarlena :: bool
  io_sendfunc :: Oid
  io_sendvarlena :: bool

text \<open>
  Modelled from the spec: what the missing matcher depends on and the spec leaves open,
  as a parameter: the two reserved column names, the type mapping table from a relational
  type to a native field type (\<open>None\<close>: unmappable) and the catalog of conversion
  functions.
\<close>

record MatcherEnv =
  rowid_name :: string
  geometry_name :: string
  type_map :: "Oid \<Rightarrow> OGRFieldType option"
  type_io :: "Oid \<Rightarrow> PgTypeIO"

text \<open>
  Modelled from the spec: an entry of the source's field list, the other input of the
  missing matcher: the name and native type of a field; the list is in the source's order.
\<close>

type_synonym OgrFieldDefn = "string \<times> OGRFieldType"

text \<open>
  Modelled from the spec: the missing matcher's search, "for each declared column, find a
  source field with a case-insensitive exact name match": the first such field, with its
  index.
\<close>

fun find_field :: "string \<Rightarrow> OgrFieldDefn list \<Rightarrow> nat \<Rightarrow> (nat \<times> OGRFieldType) option" where
  "find_field n [] i = None"
| "find_field n ((fname, ftype) # fs) i =
     (if strcaseeq n fname then Some (i, ftype) else find_field n fs (i + 1))"

text \<open>
  Modelled from the spec: the descriptor the missing matcher builds for a declared column
  before it is matched: the declared metadata, the cached conversion functions, variant
  Unmatched. The field index and type mean nothing for this variant and are zero.
\<close>

definition unmatched_column :: "MatcherEnv \<Rightarrow> PgAttribute \<Rightarrow> OgrFdwColumn" where
  "unmatched_column env att =
     (let io = type_io env (atttypid att)
      in \<lparr> pgattnum = attnum att,
           pgattisdropped = (if attisdropped att then 1 else 0),
           pgname = attname att,
           pgtype = atttypid att,
           pgtypmod = atttypmod att,
           pginputfunc = io_inputfunc io,
           pginputioparam = io_inputioparam io,
           pgrecvfunc = io_recvfunc io,
           pgrecvioparam = io_recvioparam io,
           pgoutputfunc = io_outputfunc io,
           pgoutputvarlena = io_outputvarlena io,
           pgsendfunc = io_sendfunc io,
           pgsendvarlena = io_sendvarlena io,
           ogrvariant = OGR_UNMATCHED,
           ogrfldnum = 0,
           ogrfldtype = 0 \<rparr>)"

text \<open>
  Modelled from the spec: the missing matcher on one declared column (section 4.2). An
  unmappable relational type degrades the column to Unmatched (section 4.1); the two
  reserved names map to RowIdentifier and GeometryField; a case-insensitive name match
  gives DataField with the field's index and native type; no match gives Unmatched.
\<close>

definition match_column :: "MatcherEnv \<Rightarrow> OgrFieldDefn list \<Rightarrow> PgAttribute \<Rightarrow> OgrFdwColumn" where
  "match_column env flds att =
     (case type_map env (atttypid att) of
        None \<Rightarrow> unmatched_column env att
      | Some native \<Rightarrow>
          if strcaseeq (attname att) (rowid_name env)
          then (unmatched_column env att) \<lparr> ogrvariant := OGR_FID \<rparr>
          else if strcaseeq (attname att) (geometry_name env)
          then (unmatched_column env att) \<lparr> ogrvariant := OGR_GEOMETRY \<rparr>
          else
            (case find_field (attname att) flds 0 of
               None \<Rightarrow> unmatched_column env att
             | Some (i, ftype) \<Rightarrow>
                 (unmatched_column env att)
                   \<lparr> ogrvariant := OGR_FIELD, ogrfldnum := int i, ogrfldtype := ftype \<rparr>))"

text \<open>
  Modelled from the spec: the missing matcher on the declared columns, each column on its
  own and in order.
\<close>

definition matcher :: "MatcherEnv \<Rightarrow> OgrFieldDefn list \<Rightarrow> PgAttribute list \<Rightarrow> OgrFdwColumn list" where
  "matcher env flds atts = map (match_column env flds) atts"

text \<open>An environment, three declared columns and a field list to evaluate the matcher on.\<close>

definition env0 :: MatcherEnv where
  "env0 = \<lparr> rowid_name = ''fid'', geometry_name = ''geom'',
            type_map = (\<lambda>t. if t = 23 then Some 0 else if t = 1043 then Some 4
                             else if t = 17 then Some 8 else None),
            type_io = (\<lambda>t. \<lparr> io_inputfunc = t, io_inputioparam = t, io_recvfunc = t,
                              io_recvioparam = t, io_outputfunc = t, io_outputvarlena = False,
                              io_sendfunc = t, io_sendvarlena = False \<rparr>) \<rparr>"

definition att0 :: "int \<Rightarrow> bool \<Rightarrow> string \<Rightarrow> Oid \<Rightarrow> PgAttribute" where
  "att0 n d nm t = \<lparr> attnum = n, attisdropped = d, attname = nm, atttypid = t, atttypmod = - 1 \<rparr>"

definition fields0 :: "OgrFieldDefn list" where
  "fields0 = [(''name'', 4), (''Age'', 0)]"




section \<open>The predicate deparser\<close>

text \<open>
  The header declares \<^verbatim>\<open>ogrDeparse\<close> and \<^verbatim>\<open>ogrDeparseStringLiteral\<close> (lines 190 and
  192); their bodies are in the repository's \<^verbatim>\<open>ogr_fdw_deparse.c\<close>, which is not among
  the sources, and the predicate trees are the host engine's. Everything in this section
  follows the spec's description (section 4.3).
\<close>

text \<open>
  Modelled from the spec: the operands the missing deparser walks: a column reference
  (by attribute number), a constant literal (type and text) or anything else.
\<close>

datatype Expr = Var int | Const Oid string | OtherExpr

text \<open>
  Modelled from the spec: the predicates the missing deparser walks: a binary comparison
  by operator name, a null test, a boolean combination of predicates, or anything else.
\<close>

datatype Predicate =
    OpExpr string Expr Expr
  | NullTest Expr bool
  | BoolNot Predicate
  | BoolAnd Predicate Predicate
  | BoolOr Predicate Predicate
  | OtherPredicate

text \<open>
  Modelled from the spec: how the missing deparser writes a directly convertible literal:
  as a quoted string literal or as plain text (a number).
\<close>

datatype LiteralKind = TextLiteral | PlainLiteral

text \<open>
  Modelled from the spec: what the missing deparser depends on and the spec leaves open,
  as a parameter: the fixed lookup table from the relational engine's comparison
  operators to the source language's tokens, which literal types are directly convertible
  (\<open>None\<close>: not convertible), and the quoting of identifiers.
\<close>

record DeparseEnv =
  operator_table :: "(string \<times> string) list"
  literal_kind :: "Oid \<Rightarrow> LiteralKind option"
  quote_identifier :: "string \<Rightarrow> string"

text \<open>The quote and the backslash of the filter syntax.\<close>

definition squote :: char where
  "squote = CHR 0x27"

definition backslash :: char where
  "backslash = CHR 0x5C"

text \<open>
  Modelled from the spec: the escaping of one character by the missing body of
  \<^verbatim>\<open>ogrDeparseStringLiteral\<close>: "all quote/backslash characters doubled".
\<close>

definition escape_char :: "char \<Rightarrow> string" where
  "escape_char c = (if c = squote \<or> c = backslash then [c, c] else [c])"

text \<open>
  Modelled from the spec: the missing body of
  \<^verbatim>\<open>void ogrDeparseStringLiteral(StringInfo buf, const char *val)\<close>: it appends to the
  buffer the escaped value between quotes.
\<close>

definition ogrDeparseStringLiteral :: "string \<Rightarrow> string \<Rightarrow> string" where
  "ogrDeparseStringLiteral buf val = buf @ [squote] @ concat (map escape_char val) @ [squote]"

text \<open>
  Modelled from the spec: the missing deparser on an operand. It is serialized when it is
  a reference to a DataField column (the quoted declared name) or a constant literal of a
  directly convertible type; a reference to a RowIdentifier, GeometryField or Unmatched
  column, or to no column of the schema, is not.
\<close>

fun deparse_expr :: "DeparseEnv \<Rightarrow> OgrFdwTable \<Rightarrow> Expr \<Rightarrow> string option" where
  "deparse_expr env t (Var a) =
     (case find (\<lambda>c. pgattnum c = a) (cols t) of
        None \<Rightarrow> None
      | Some c \<Rightarrow>
          if ogrvariant c = OGR_FIELD then Some (quote_identifier env (pgname c)) else None)"
| "deparse_expr env t (Const ty v) =
     (case literal_kind env ty of
        None \<Rightarrow> None
      | Some TextLiteral \<Rightarrow> Some (ogrDeparseStringLiteral [] v)
      | Some PlainLiteral \<Rightarrow> Some v)"
| "deparse_expr env t OtherExpr = None"

text \<open>
  Modelled from the spec: the missing deparser on one predicate. It is serialized when
  its form is supported, its operators are in the lookup table and its operands are
  serialized; \<open>None\<close> says it is not pushed.
\<close>

fun deparse_predicate :: "DeparseEnv \<Rightarrow> OgrFdwTable \<Rightarrow> Predicate \<Rightarrow> string option" where
  "deparse_predicate env t (OpExpr opr l r) =
     (case map_of (operator_table env) opr of
        None \<Rightarrow> None
      | Some tok \<Rightarrow>
          (case deparse_expr env t l of
             None \<Rightarrow> None
           | Some a \<Rightarrow>
               (case deparse_expr env t r of
                  None \<Rightarrow> None
                | Some b \<Rightarrow> Some (''('' @ a @ '' '' @ tok @ '' '' @ b @ '')''))))"
| "deparse_predicate env t (NullTest x isnull) =
     (case deparse_expr env t x of
        None \<Rightarrow> None
      | Some a \<Rightarrow> Some (''('' @ a @ (if isnull then '' IS NULL'' else '' IS NOT NULL'') @ '')''))"
| "deparse_predicate env t (BoolNot p) =
     (case deparse_predicate env t p of
        None \<Rightarrow> None
      | Some a \<Rightarrow> Some (''(NOT '' @ a @ '')''))"
| "deparse_predicate env t (BoolAnd p q) =
     (case deparse_predicate env t p of
        None \<Rightarrow> None
      | Some a \<Rightarrow>
          (case deparse_predicate env t q of
             None \<Rightarrow> None
           | Some b \<Rightarrow> Some (''('' @ a @ '' AND '' @ b @ '')'')))"
| "deparse_predicate env t (BoolOr p q) =
     (case deparse_predicate env t p of
        None \<Rightarrow> None
      | Some a \<Rightarrow>
          (case deparse_predicate env t q of
             None \<Rightarrow> None
           | Some b \<Rightarrow> Some (''('' @ a @ '' OR '' @ b @ '')'')))"
| "deparse_predicate env t OtherPredicate = None"

text \<open>
  Modelled from the spec: the missing deparser's joining of the serialized predicates:
  "Multiple eligible predicates are joined with logical AND; zero eligible predicates
  yields an empty filter."
\<close>

fun join_and :: "string list \<Rightarrow> string" where
  "join_and [] = []"
| "join_and [s] = s"
| "join_and (s # ss) = s @ '' AND '' @ join_and ss"

text \<open>
  Modelled from the spec: the mask entry and the contribution to the filter expression
  that the missing deparser derives from one predicate's result.
\<close>

definition pushed :: "string option \<Rightarrow> bool" where
  "pushed r = (case r of None \<Rightarrow> False | Some s \<Rightarrow> True)"

definition serialized :: "string option \<Rightarrow> string list" where
  "serialized r = (case r of None \<Rightarrow> [] | Some s \<Rightarrow> [s])"

text \<open>
  Modelled from the spec: the missing
  \<open>deparse(predicateList, schema) -> (filterExpression, pushedMask)\<close>. Each top-level
  predicate is walked independently; the mask is aligned with the predicate list.
\<close>

definition deparse :: "DeparseEnv \<Rightarrow> Predicate list \<Rightarrow> OgrFdwTable \<Rightarrow> string \<times> bool list" where
  "deparse env preds t =
     (let rs = map (deparse_predicate env t) preds
      in (join_and (concat (map serialized rs)), map pushed rs))"

subsection \<open>Eligibility, in the spec's words\<close>

text \<open>
  The spec's three conditions of eligibility, stated on the predicate alone, to compare
  the deparser's mask with.
\<close>

text \<open>The operands of a predicate, through its boolean combinations.\<close>

fun operands :: "Predicate \<Rightarrow> Expr list" where
  "operands (OpExpr opr l r) = [l, r]"
| "operands (NullTest x isnull) = [x]"
| "operands (BoolNot p) = operands p"
| "operands (BoolAnd p q) = operands p @ operands q"
| "operands (BoolOr p q) = operands p @ operands q"
| "operands OtherPredicate = []"

text \<open>
  "it is a simple binary comparison (equality, ordering, or pattern match) or a
  restricted boolean/null-test form": the comparisons are those of the lookup table.
\<close>

fun simple_form :: "DeparseEnv \<Rightarrow> Predicate \<Rightarrow> bool" where
  "simple_form env (OpExpr opr l r) = (opr \<in> fst ` set (operator_table env))"
| "simple_form env (NullTest x isnull) = True"
| "simple_form env (BoolNot p) = simple_form env p"
| "simple_form env (BoolAnd p q) = (simple_form env p \<and> simple_form env q)"
| "simple_form env (BoolOr p q) = (simple_form env p \<and> simple_form env q)"
| "simple_form env OtherPredicate = False"

text \<open>The variant of the schema's column with a given attribute number, if there is one.\<close>

definition column_variant :: "OgrFdwTable \<Rightarrow> int \<Rightarrow> OgrColumnVariant option" where
  "column_variant t a = map_option ogrvariant (find (\<lambda>c. pgattnum c = a) (cols t))"

text \<open>
  "all its operands resolve to either a DataField column reference or a constant literal
  of a directly convertible type".
\<close>

fun datafield_ref :: "OgrFdwTable \<Rightarrow> Expr \<Rightarrow> bool" where
  "datafield_ref t (Var a) = (column_variant t a = Some OGR_FIELD)"
| "datafield_ref t (Const ty v) = False"
| "datafield_ref t OtherExpr = False"

fun convertible_literal :: "DeparseEnv \<Rightarrow> Expr \<Rightarrow> bool" where
  "convertible_literal env (Var a) = False"
| "convertible_literal env (Const ty v) = (literal_kind env ty \<in> {Some TextLiteral, Some PlainLiteral})"
| "convertible_literal env OtherExpr = False"

text \<open>"no operand involves the RowIdentifier or GeometryField variants".\<close>

fun rowid_or_geometry_ref :: "OgrFdwTable \<Rightarrow> Expr \<Rightarrow> bool" where
  "rowid_or_geometry_ref t (Var a) = (column_variant t a \<in> {Some OGR_FID, Some OGR_GEOMETRY})"
| "rowid_or_geometry_ref t (Const ty v) = False"
| "rowid_or_geometry_ref t OtherExpr = False"

text \<open>The second and third condition on one operand, and the three on a predicate.\<close>

definition good_operand :: "DeparseEnv \<Rightarrow> OgrFdwTable \<Rightarrow> Expr \<Rightarrow> bool" where
  "good_operand env t x =
     ((datafield_ref t x \<or> convertible_literal env x) \<and> \<not> rowid_or_geometry_ref t x)"

definition eligible :: "DeparseEnv \<Rightarrow> OgrFdwTable \<Rightarrow> Predicate \<Rightarrow> bool" where
  "eligible env t p = (simple_form env p \<and> list_all (good_operand env t) (operands p))"

text \<open>An environment, a schema and predicates to evaluate the deparser on.\<close>

definition denv0 :: DeparseEnv where
  "denv0 = \<lparr> operator_table = [(''='', ''=''), (''<>'', ''<>''), (''~~'', ''LIKE'')],
             literal_kind = (\<lambda>t. if t = 23 then Some PlainLiteral
                                  else if t = 25 then Some TextLiteral else None),
             quote_identifier = (\<lambda>n. [CHR 0x22] @ n @ [CHR 0x22]) \<rparr>"

definition schema0 :: OgrFdwTable where
  "schema0 =
     \<lparr> ncols = 4, tblname = ''t'',
       cols = matcher env0 fields0
         [att0 1 False ''fid'' 23, att0 2 False ''geom'' 17, att0 3 False ''name'' 1043,
          att0 4 False ''age'' 23] \<rparr>"

definition quoted_value :: string where
  "quoted_value = [CHR ''O'', squote, CHR ''x'', backslash]"

definition preds0 :: "Predicate list" where
  "preds0 =
     [OpExpr ''='' (Var 4) (Const 23 ''12''),
      OpExpr ''='' (Var 1) (Const 23 ''4''),
      OpExpr ''~~'' (Var 3) (Const 25 quoted_value),
      OpExpr ''<'' (Var 4) (Const 23 ''12''),
      NullTest (Var 2) True]"

section \<open>The common prefix of the session-state structs\<close>

lemma layout_OgrFdwState:
  "layout a OgrFdwState_members =
     [(''type'', align_up 0 (align_of a C_OgrFdwStateType), size_of a C_OgrFdwStateType),
      (''foreigntableid'',
         align_up (align_up 0 (align_of a C_OgrFdwStateType) + size_of a C_OgrFdwStateType)
           (align_of a C_Oid),
         size_of a C_Oid),
      (''ogr'',
         align_up
           (align_up (align_up 0 (align_of a C_OgrFdwStateType) + size_of a C_OgrFdwStateType)
              (align_of a C_Oid) + size_of a C_Oid)
           (malign a Struct_OgrConnection),
         msize a Struct_OgrConnection)]"
  by (simp add: layout_def OgrFdwState_members_def Let_def)

lemma take_place:
  "take k (place sz al off ms) = place sz al off (take k ms)"
proof (induction ms arbitrary: k off)
  case Nil
  show ?case by simp
next
  case (Cons m ms)
  obtain n t where m: "m = (n, t)" by (cases m)
  show ?case
    by (cases k) (simp_all add: m Let_def Cons.IH)
qed

lemma take_layout: "take k (layout a ms) = layout a (take k ms)"
  by (simp add: layout_def take_place)

lemma map_of_take_prefix:
  assumes "map_of (take k xs) f = Some v"
  shows "map_of xs f = Some v"
proof -
  have "map_of (take k xs @ drop k xs) f = Some v"
    using assms by (simp only: map_of_append map_add_Some_iff) simp
  then show ?thesis by simp
qed

lemma read_member_prefix:
  assumes pre: "take k ms = ms0"
    and def: "map_of (layout a ms0) f = Some v"
  shows "read_member a ms f m p = read_member a ms0 f m p"
proof -
  have "map_of (take k (layout a ms)) f = Some v"
    using pre def by (simp add: take_layout)
  then have "map_of (layout a ms) f = Some v"
    by (rule map_of_take_prefix)
  then show ?thesis
    using def by (simp add: read_member_def)
qed

lemma OgrFdwState_slots:
  "map_of (layout a OgrFdwState_members) ''type'' =
     Some (align_up 0 (align_of a C_OgrFdwStateType), size_of a C_OgrFdwStateType)"
  "map_of (layout a OgrFdwState_members) ''foreigntableid'' =
     Some (align_up (align_up 0 (align_of a C_OgrFdwStateType) + size_of a C_OgrFdwStateType)
             (align_of a C_Oid),
           size_of a C_Oid)"
  "map_of (layout a OgrFdwState_members) ''ogr'' =
     Some (align_up
             (align_up (align_up 0 (align_of a C_OgrFdwStateType) + size_of a C_OgrFdwStateType)
                (align_of a C_Oid) + size_of a C_Oid)
             (malign a Struct_OgrConnection),
           msize a Struct_OgrConnection)"
  by (simp_all add: layout_OgrFdwState)

lemma state_prefixes:
  "take 3 OgrFdwPlanState_members = OgrFdwState_members"
  "take 3 OgrFdwExecState_members = OgrFdwState_members"
  "take 3 OgrFdwModifyState_members = OgrFdwState_members"
  by (simp_all add: OgrFdwPlanState_members_def OgrFdwExecState_members_def
      OgrFdwModifyState_members_def OgrFdwState_members_def)

text \<open>
  C10. The plan, exec and modify state structs begin with the members of
  \<^verbatim>\<open>OgrFdwState\<close> (\<open>type\<close>, \<open>foreigntableid\<close>, \<open>ogr\<close>), in that order and with those
  types. So, whatever the sizes and alignments of the member types, and for every memory
  and every address of a session state, the tag, the table OID and the connection read
  through \<^verbatim>\<open>OgrFdwState\<close> are the bytes read through the phase-specific struct, and
  both reads are defined.
\<close>

theorem state_common_prefix:
  "take 3 OgrFdwPlanState_members = OgrFdwState_members
   \<and> take 3 OgrFdwExecState_members = OgrFdwState_members
   \<and> take 3 OgrFdwModifyState_members = OgrFdwState_members
   \<and> read_member a OgrFdwState_members ''type'' m p =
       Some (load m (p + align_up 0 (align_of a C_OgrFdwStateType)) (size_of a C_OgrFdwStateType))
   \<and> read_member a OgrFdwState_members ''ogr'' m p =
       Some (load m
         (p + align_up
            (align_up (align_up 0 (align_of a C_OgrFdwStateType) + size_of a C_OgrFdwStateType)
               (align_of a C_Oid) + size_of a C_Oid)
            (malign a Struct_OgrConnection))
         (msize a Struct_OgrConnection))
   \<and> read_member a OgrFdwPlanState_members ''type'' m p =
       read_member a OgrFdwState_members ''type'' m p
   \<and> read_member a OgrFdwPlanState_members ''foreigntableid'' m p =
       read_member a OgrFdwState_members ''foreigntableid'' m p
   \<and> read_member a OgrFdwPlanState_members ''ogr'' m p =
       read_member a OgrFdwState_members ''ogr'' m p
   \<and> read_member a OgrFdwExecState_members ''type'' m p =
       read_member a OgrFdwState_members ''type'' m p
   \<and> read_member a OgrFdwExecState_members ''foreigntableid'' m p =
       read_member a OgrFdwState_members ''foreigntableid'' m p
   \<and> read_member a OgrFdwExecState_members ''ogr'' m p =
       read_member a OgrFdwState_members ''ogr'' m p
   \<and> read_member a OgrFdwModifyState_members ''type'' m p =
       read_member a OgrFdwState_members ''type'' m p
   \<and> read_member a OgrFdwModifyState_members ''foreigntableid'' m p =
       read_member a OgrFdwState_members ''foreigntableid'' m p
   \<and> read_member a OgrFdwModifyState_members ''ogr'' m p =
       read_member a OgrFdwState_members ''ogr'' m p"
proof -
  note pre = state_prefixes
  note slots = OgrFdwState_slots [of a]
  have r1: "read_member a OgrFdwState_members ''type'' m p =
       Some (load m (p + align_up 0 (align_of a C_OgrFdwStateType)) (size_of a C_OgrFdwStateType))"
    by (simp add: read_member_def slots(1))
  have r2: "read_member a OgrFdwState_members ''ogr'' m p =
       Some (load m
         (p + align_up
            (align_up (align_up 0 (align_of a C_OgrFdwStateType) + size_of a C_OgrFdwStateType)
               (align_of a C_Oid) + size_of a C_Oid)
            (malign a Struct_OgrConnection))
         (msize a Struct_OgrConnection))"
    by (simp add: read_member_def slots(3))
  show ?thesis
    by (intro conjI pre r1 r2
        read_member_prefix [OF pre(1) slots(1)] read_member_prefix [OF pre(1) slots(2)]
        read_member_prefix [OF pre(1) slots(3)]
        read_member_prefix [OF pre(2) slots(1)] read_member_prefix [OF pre(2) slots(2)]
        read_member_prefix [OF pre(2) slots(3)]
        read_member_prefix [OF pre(3) slots(1)] read_member_prefix [OF pre(3) slots(2)]
        read_member_prefix [OF pre(3) slots(3)])
qed

lemma lp64_layout_OgrFdwState:
  "layout lp64 OgrFdwState_members = [(''type'', 0, 4), (''foreigntableid'', 4, 4), (''ogr'', 8, 56)]"
  by (simp add: layout_OgrFdwState lp64_def align_up_def struct_size_def struct_align_def
      OgrConnection_members_def Let_def)


section \<open>Properties of the column matcher\<close>

lemma of_char_int_zero: "(of_char a :: int) = 0 \<longleftrightarrow> a = CHR 0x00"
proof -
  have "(of_char a :: int) = of_char (CHR 0x00) \<longleftrightarrow> a = CHR 0x00"
    by (simp only: of_char_eq_iff)
  then show ?thesis by simp
qed

lemma of_char_nat_zero: "(of_char a :: nat) = 0 \<longleftrightarrow> a = CHR 0x00"
proof -
  have "(of_char a :: nat) = of_char (CHR 0x00) \<longleftrightarrow> a = CHR 0x00"
    by (simp only: of_char_eq_iff)
  then show ?thesis by simp
qed

lemma of_char_tolower:
  "(of_char (tolower c) :: nat) =
     (if 65 \<le> (of_char c :: nat) \<and> (of_char c :: nat) \<le> 90 then of_char c + 32 else of_char c)"
  by (simp add: tolower_def Let_def)

lemma tolower_nul: "tolower c = CHR 0x00 \<longleftrightarrow> c = CHR 0x00"
proof -
  have "tolower c = CHR 0x00 \<longleftrightarrow> (of_char (tolower c) :: nat) = 0"
    by (simp only: of_char_nat_zero)
  also have "\<dots> \<longleftrightarrow> (of_char c :: nat) = 0"
    by (simp add: of_char_tolower)
  also have "\<dots> \<longleftrightarrow> c = CHR 0x00"
    by (simp only: of_char_nat_zero)
  finally show ?thesis .
qed

lemma tolower_zero: "tolower (CHR 0x00) = CHR 0x00"
  by (simp add: tolower_def)

lemma tolower_nul': "CHR 0x00 = tolower c \<longleftrightarrow> c = CHR 0x00"
  using tolower_nul [of c] by (simp only: eq_commute [of "CHR 0x00"])

lemma tolower_idem: "tolower (tolower c) = tolower c"
  by (simp add: tolower_def Let_def)

lemma strcaseeq_iff: "strcaseeq s t \<longleftrightarrow> map tolower (cstr s) = map tolower (cstr t)"
proof (induction s t rule: strcasecmp.induct)
  case 1
  show ?case by (simp add: strcaseeq_def cstr_def)
next
  case (2 d ds)
  show ?case by (simp add: strcaseeq_def cstr_def tolower_nul of_char_int_zero)
next
  case (3 c cs)
  then show ?case by (simp add: strcaseeq_def cstr_def tolower_nul of_char_int_zero)
next
  case (4 c cs d ds)
  then show ?case
    by (auto simp add: strcaseeq_def cstr_def tolower_nul tolower_nul' tolower_zero
        of_char_int_zero Let_def)
qed

lemma strcaseeq_refl: "strcaseeq s s"
  by (simp add: strcaseeq_iff)

lemma strcaseeq_sym: "strcaseeq s t \<Longrightarrow> strcaseeq t s"
  by (simp add: strcaseeq_iff)

lemma strcaseeq_trans: "strcaseeq s t \<Longrightarrow> strcaseeq t u \<Longrightarrow> strcaseeq s u"
  by (simp add: strcaseeq_iff)






lemma variant_unmatched_column [simp]: "ogrvariant (unmatched_column env att) = OGR_UNMATCHED"
  by (simp add: unmatched_column_def Let_def)





lemma fld_unmatched_column [simp]:
  "ogrfldnum (unmatched_column env att) = 0" "ogrfldtype (unmatched_column env att) = 0"
  by (simp_all add: unmatched_column_def Let_def)









section \<open>Properties of the predicate deparser\<close>


lemma pushed_simps [simp]: "pushed None = False" "pushed (Some s) = True"
  by (simp_all add: pushed_def)

lemma serialized_simps [simp]: "serialized None = []" "serialized (Some s) = [s]"
  by (simp_all add: serialized_def)

lemma pushed_deparse_expr: "pushed (deparse_expr env t x) = good_operand env t x"
proof (cases x)
  case (Var a)
  show ?thesis
    by (auto simp add: Var good_operand_def column_variant_def split: option.splits)
next
  case (Const ty v)
  show ?thesis
    by (auto simp add: Const good_operand_def split: option.splits LiteralKind.splits)
next
  case OtherExpr
  show ?thesis by (simp add: OtherExpr good_operand_def)
qed

lemma map_of_None_iff: "map_of tab k = None \<longleftrightarrow> k \<notin> fst ` set tab"
  by (rule map_of_eq_None_iff)

lemma pushed_deparse_predicate: "pushed (deparse_predicate env t p) = eligible env t p"
proof (induction p)
  case (OpExpr opr l r)
  have tab: "opr \<in> fst ` set (operator_table env) \<longleftrightarrow> map_of (operator_table env) opr \<noteq> None"
    by (simp add: map_of_None_iff)
  show ?case
    using pushed_deparse_expr [of env t l] pushed_deparse_expr [of env t r]
    by (simp only: eligible_def simple_form.simps operands.simps tab)
       (auto split: option.splits)
next
  case (NullTest x isnull)
  show ?case
    using pushed_deparse_expr [of env t x]
    by (auto simp add: eligible_def split: option.splits)
next
  case (BoolNot p)
  then show ?case
    by (auto simp add: eligible_def split: option.splits)
next
  case (BoolAnd p q)
  then show ?case
    by (auto simp add: eligible_def split: option.splits)
next
  case (BoolOr p q)
  then show ?case
    by (auto simp add: eligible_def split: option.splits)
next
  case OtherPredicate
  show ?case by (simp add: eligible_def)
qed

lemma serialized_ineligible:
  "\<not> eligible env t p \<Longrightarrow> serialized (deparse_predicate env t p) = []"
  using pushed_deparse_predicate [of env t p] by (cases "deparse_predicate env t p") simp_all

lemma concat_serialized_filter:
  "concat (map (\<lambda>p. serialized (deparse_predicate env t p)) preds) =
   concat (map (\<lambda>p. serialized (deparse_predicate env t p)) (filter (eligible env t) preds))"
  by (induction preds) (simp_all add: serialized_ineligible)

text \<open>
  C2. The mask returned by the deparser has one entry per input predicate, in order, and
  the entry is true exactly when the predicate is eligible: a comparison of the lookup
  table, a null test or a boolean combination of such, all of whose operands are
  references to DataField columns or directly convertible constant literals, none a
  reference to a RowIdentifier or GeometryField column. Every other predicate has a false
  entry, and the filter expression is the conjunction of the eligible predicates only.
\<close>

theorem pushed_only_if_eligible:
  "snd (deparse env preds t) = map (eligible env t) preds
   \<and> length (snd (deparse env preds t)) = length preds
   \<and> fst (deparse env preds t) =
       join_and (concat (map (\<lambda>p. serialized (deparse_predicate env t p))
         (filter (eligible env t) preds)))
   \<and> (\<forall>i < length preds. snd (deparse env preds t) ! i \<longrightarrow>
        simple_form env (preds ! i)
        \<and> (\<forall>x \<in> set (operands (preds ! i)).
             (datafield_ref t x \<or> convertible_literal env x) \<and> \<not> rowid_or_geometry_ref t x))
   \<and> (\<forall>i < length preds. \<not> eligible env t (preds ! i) \<longrightarrow> snd (deparse env preds t) ! i = False)"
proof -
  have m: "snd (deparse env preds t) = map (eligible env t) preds"
    by (simp add: deparse_def Let_def pushed_deparse_predicate)
  have f: "fst (deparse env preds t) =
       join_and (concat (map (\<lambda>p. serialized (deparse_predicate env t p))
         (filter (eligible env t) preds)))"
    using concat_serialized_filter [of env t preds]
    by (simp add: deparse_def Let_def comp_def)
  have o: "\<forall>i < length preds. snd (deparse env preds t) ! i \<longrightarrow>
        simple_form env (preds ! i)
        \<and> (\<forall>x \<in> set (operands (preds ! i)).
             (datafield_ref t x \<or> convertible_literal env x) \<and> \<not> rowid_or_geometry_ref t x)"
    by (simp add: m eligible_def list_all_iff good_operand_def)
  have u: "\<forall>i < length preds. \<not> eligible env t (preds ! i) \<longrightarrow> snd (deparse env preds t) ! i = False"
    by (simp add: m)
  from m f o u show ?thesis by simp
qed

theorem pushed_only_if_eligible_witness:
  "snd (deparse denv0 preds0 schema0) = [True, False, True, False, False]
   \<and> (0 < length preds0 \<and> snd (deparse denv0 preds0 schema0) ! 0
        \<and> simple_form denv0 (preds0 ! 0)
        \<and> list_all (\<lambda>x. (datafield_ref schema0 x \<or> convertible_literal denv0 x)
                          \<and> \<not> rowid_or_geometry_ref schema0 x) (operands (preds0 ! 0)))
   \<and> (1 < length preds0 \<and> \<not> eligible denv0 schema0 (preds0 ! 1)
        \<and> snd (deparse denv0 preds0 schema0) ! 1 = False)"
proof -
  note t = pushed_only_if_eligible [of denv0 preds0 schema0]
  have e: "map (eligible denv0 schema0) preds0 = [True, False, True, False, False]"
    by code_simp
  have n: "length preds0 = 5"
    by (simp add: preds0_def)
  from t e have m: "snd (deparse denv0 preds0 schema0) = [True, False, True, False, False]"
    by simp
  from t have a: "\<forall>i < length preds0. snd (deparse denv0 preds0 schema0) ! i \<longrightarrow>
        simple_form denv0 (preds0 ! i)
        \<and> (\<forall>x \<in> set (operands (preds0 ! i)).
             (datafield_ref schema0 x \<or> convertible_literal denv0 x)
             \<and> \<not> rowid_or_geometry_ref schema0 x)"
    by blast
  have a0: "simple_form denv0 (preds0 ! 0)
        \<and> (\<forall>x \<in> set (operands (preds0 ! 0)).
             (datafield_ref schema0 x \<or> convertible_literal denv0 x)
             \<and> \<not> rowid_or_geometry_ref schema0 x)"
    using a [rule_format, of 0] by (simp add: m n)
  have b1: "\<not> eligible denv0 schema0 (preds0 ! 1)"
    using e by (simp add: n list_eq_iff_nth_eq)
  show ?thesis
    using a0 b1 by (simp add: m n list_all_iff)
qed

end
